theory Spec2Isabelle
  imports Complex_Main "HOL-Library.Multiset"
begin

section \<open>Values shared by the client and the components\<close>

text \<open>
  JavaScript strings are modelled as \<open>string\<close>, JavaScript numbers that count things
  (\<open>num_results\<close>, \<open>limit\<close>, \<open>duration_ms\<close>, \<open>popularity\<close>) as \<open>int\<close>, the other numbers
  as \<open>real\<close>; the client only copies them. An optional field (\<open>album?: string\<close>) is an
  \<open>option\<close>; \<open>None\<close> stands for \<open>undefined\<close>.
  Field names carry a prefix that names their record, since several interfaces of
  \<open>spotify-api.ts\<close> share the names \<open>id\<close>, \<open>name\<close>, \<open>artist\<close>, \<open>spotify_id\<close>.
\<close>

text \<open>The values a rejected promise carries.\<close>

datatype js_error = Error string | TypeError string | SyntaxError string

text \<open>\<open>x || y\<close> on an optional string: \<open>undefined\<close> and the empty string are falsy.\<close>

fun truthy :: "string option \<Rightarrow> bool" where
  "truthy None = False"
| "truthy (Some s) = (s \<noteq> [])"

fun or_else :: "string option \<Rightarrow> string \<Rightarrow> string" where
  "or_else None d = d"
| "or_else (Some s) d = (if s \<noteq> [] then s else d)"

text \<open>\<open>s.substr(start, len)\<close> for non-negative arguments.\<close>

definition substr :: "string \<Rightarrow> nat \<Rightarrow> nat \<Rightarrow> string" where
  "substr s start len = take len (drop start s)"

text \<open>\<open>n.toString()\<close> of an integer of magnitude below \<open>10\<^sup>2\<^sup>1\<close>, where JavaScript writes
  all the decimal digits and no exponent: the digits, with a sign when negative. The
  components pass the limit 8 and the default limit is 10.\<close>

fun digits :: "nat \<Rightarrow> string" where
  "digits n = (if n < 10 then [char_of (48 + n)] else digits (n div 10) @ [char_of (48 + n mod 10)])"

declare digits.simps [simp del]

definition toString :: "int \<Rightarrow> string" where
  "toString n = (if n < 0 then CHR ''-'' # digits (nat (- n)) else digits (nat n))"

section \<open>The HTTP boundary\<close>

text \<open>
  \<open>fetch\<close> is a parameter of every method. It either rejects (\<open>Inl\<close>: a network
  failure) or resolves to a response. A response is \<open>NotOk\<close> or \<open>IsOk\<close> as
  \<open>response.ok\<close> says, and carries what \<open>response.json()\<close> gives: a rejection when the
  body is not JSON, the decoded body otherwise. A request keeps the
  value handed to \<open>JSON.stringify\<close> as its body and the entries of \<open>URLSearchParams\<close> as
  its query, so \<open>url\<close> is the address up to the question mark.
\<close>

record error_body =
  detail :: "string option"

datatype 'b response = NotOk "js_error + error_body" | IsOk "js_error + 'b"

record 'q http_request =
  http_method :: string
  url :: string
  query :: "(string \<times> string) list"
  headers :: "(string \<times> string) list"
  body :: "'q option"

definition GET :: "string \<Rightarrow> (string \<times> string) list \<Rightarrow> unit http_request" where
  "GET u q = \<lparr>http_method = ''GET'', url = u, query = q, headers = [], body = None\<rparr>"

text \<open>\<open>try { ... } catch (error) { ... }\<close>: the handler runs on the error of the body.\<close>

definition try_catch :: "js_error + 'a \<Rightarrow> (js_error \<Rightarrow> js_error + 'a) \<Rightarrow> js_error + 'a" where
  "try_catch block handler = (case block of Inl error \<Rightarrow> handler error | Inr v \<Rightarrow> Inr v)"

text \<open>\<open>await p\<close> followed by the rest of the block.\<close>

definition await :: "js_error + 'a \<Rightarrow> ('a \<Rightarrow> js_error + 'b) \<Rightarrow> js_error + 'b" where
  "await p rest = (case p of Inl error \<Rightarrow> Inl error | Inr v \<Rightarrow> rest v)"

section \<open>Interfaces of \<open>spotify-api.ts\<close>\<close>

record SpotifyTrack =
  track_id :: string
  track_name :: string
  track_artist :: string
  track_album :: "string option"
  track_preview_url :: "string option"
  track_similarity_score :: real
  track_external_url :: "string option"
  track_duration_ms :: "int option"
  track_popularity :: "int option"
  track_album_image :: "string option"

record SpotifyArtist =
  artist_id :: string
  artist_name :: string
  artist_genres :: "string list"
  artist_popularity :: int
  artist_image_url :: "string option"
  artist_external_url :: string

record seed_song =
  seed_song_name :: string
  seed_artist :: string
  seed_spotify_id :: "string option"

record seed_artist_entry =
  seed_artist_name :: string
  seed_artist_spotify_id :: "string option"

record PlaylistGenerationRequest =
  songs :: "seed_song list option"
  artists :: "seed_artist_entry list option"
  emotion :: "string list option"
  num_results :: "int option"
  enrich_with_lyrics :: "bool option"

record PlaylistGenerationResponse =
  playlist :: "SpotifyTrack list"
  emotion_features :: "(string \<times> real) list option"
  combined_embedding :: "real list option"

text \<open>
  Modelled from the spec: the interface \<open>MoodCollage\<close>, which the components import from
  \<open>spotify-api.ts\<close> and that file does not declare. The fields are those of the API
  reference (a base64 encoded PNG, hex colour codes, generation parameters, width, height).
\<close>

datatype param_value = Num real | Str string | Bool bool

record MoodCollage =
  image_base64 :: string
  dominant_colors :: "string list"
  visual_params :: "(string \<times> param_value) list"
  width :: int
  height :: int

text \<open>
  The decoded bodies. The functions read them as \<open>any\<close>; the fields are the ones each
  function reads, typed as the interface it fills. The body of \<open>/generate-playlist\<close> also
  has the \<open>mood_collage\<close> of the API reference. The body of \<open>/emotions\<close> is a JSON object
  that has an \<open>emotions\<close> field or has none; \<open>healthCheck\<close> and \<open>getTrackById\<close> hand the
  decoded body on without reading it, so their bodies are of any type.
\<close>

record backend_song =
  song_spotify_id :: "string option"
  song_song_name :: string
  song_artist :: string
  song_album :: "string option"
  song_preview_url :: "string option"
  song_similarity_score :: real
  song_external_url :: "string option"
  song_duration_ms :: "int option"
  song_popularity :: "int option"
  song_album_image :: "string option"

record playlist_data =
  data_playlist :: "backend_song list"
  data_mood_collage :: "MoodCollage option"
  data_emotion_features :: "(string \<times> real) list option"
  data_combined_embedding :: "real list option"

record emotions_data =
  data_emotions :: "string list option"

record health_data =
  status :: string
  version :: string

record 't tracks_data =
  data_tracks :: "'t list option"

record found_track =
  found_spotify_id :: "string option"
  found_id :: string
  found_song_name :: "string option"
  found_name :: string
  found_artist :: string
  found_album :: "string option"
  found_preview_url :: "string option"
  found_external_url :: "string option"
  found_duration_ms :: "int option"
  found_popularity :: "int option"
  found_album_image :: "string option"

record found_artist_entry =
  founda_spotify_id :: "string option"
  founda_id :: string
  founda_name :: string
  founda_genres :: "string list option"
  founda_popularity :: "int option"
  founda_image_url :: "string option"
  founda_external_url :: string

record artists_data =
  data_artists :: "found_artist_entry list option"

record seed_track =
  seed_track_name :: string
  seed_track_artist :: string
  seed_track_spotify_id :: "string option"

section \<open>The class \<open>SpotifyAPI\<close>\<close>

text \<open>
  Every method takes \<open>fetch\<close> and \<open>this.baseUrl\<close>. \<open>console.error\<close> writes a log line and
  is left out. \<open>random36 k\<close> is what the \<open>k\<close>-th evaluation of
  \<open>Math.random().toString(36)\<close> gives during the call.
\<close>

text \<open>The callback of \<open>data.playlist.map\<close>; the right operand of \<open>||\<close> is evaluated, and a
  random number drawn, only when \<open>song.spotify_id\<close> is falsy. The second component is the
  number of draws made so far.\<close>

definition song_to_track :: "(nat \<Rightarrow> string) \<Rightarrow> nat \<Rightarrow> backend_song \<Rightarrow> SpotifyTrack \<times> nat" where
  "song_to_track random36 k song =
     (\<lparr>track_id = or_else (song_spotify_id song) (''track-'' @ substr (random36 k) 2 9),
       track_name = song_song_name song,
       track_artist = song_artist song,
       track_album = song_album song,
       track_preview_url = song_preview_url song,
       track_similarity_score = song_similarity_score song,
       track_external_url = song_external_url song,
       track_duration_ms = song_duration_ms song,
       track_popularity = song_popularity song,
       track_album_image = song_album_image song\<rparr>,
      if truthy (song_spotify_id song) then k else Suc k)"

fun map_songs :: "(nat \<Rightarrow> string) \<Rightarrow> nat \<Rightarrow> backend_song list \<Rightarrow> SpotifyTrack list" where
  "map_songs random36 k [] = []"
| "map_songs random36 k (song # rest) =
     (case song_to_track random36 k song of
        (track, k') \<Rightarrow> track # map_songs random36 k' rest)"

text \<open>The argument of \<open>fetch\<close> in \<open>generatePlaylist\<close>.\<close>

definition generate_playlist_request ::
  "string \<Rightarrow> PlaylistGenerationRequest \<Rightarrow> PlaylistGenerationRequest http_request" where
  "generate_playlist_request baseUrl request =
     \<lparr>http_method = ''POST'', url = baseUrl @ ''/generate-playlist'', query = [],
      headers = [(''Content-Type'', ''application/json'')],
      body = Some request\<rparr>"

definition generatePlaylist ::
  "(nat \<Rightarrow> string) \<Rightarrow> (PlaylistGenerationRequest http_request \<Rightarrow> js_error + playlist_data response)
     \<Rightarrow> string \<Rightarrow> PlaylistGenerationRequest \<Rightarrow> js_error + PlaylistGenerationResponse" where
  "generatePlaylist random36 fetch baseUrl request =
     try_catch
       (await (fetch (generate_playlist_request baseUrl request))
          (\<lambda>response. case response of
             NotOk json \<Rightarrow>
               await json (\<lambda>error. Inl (Error (or_else (detail error) ''Failed to generate playlist'')))
           | IsOk json \<Rightarrow>
               await json (\<lambda>data. Inr
                 \<lparr>playlist = map_songs random36 0 (data_playlist data),
                  emotion_features = data_emotion_features data,
                  combined_embedding = data_combined_embedding data\<rparr>)))
       (\<lambda>error. Inl error)"

definition DEFAULT_EMOTIONS :: "string list" where
  "DEFAULT_EMOTIONS = [''happy'', ''sad'', ''energetic'', ''calm'', ''angry'', ''melancholic'',
     ''hopeful'', ''romantic'', ''anxious'', ''peaceful'']"

definition getEmotions ::
  "(unit http_request \<Rightarrow> js_error + emotions_data response) \<Rightarrow> string
     \<Rightarrow> js_error + string list option" where
  "getEmotions fetch baseUrl =
     try_catch
       (await (fetch (GET (baseUrl @ ''/emotions'') []))
          (\<lambda>response. case response of
             NotOk json \<Rightarrow> Inl (Error ''Failed to fetch emotions'')
           | IsOk json \<Rightarrow> await json (\<lambda>data. Inr (data_emotions data))))
       (\<lambda>error. Inr (Some DEFAULT_EMOTIONS))"

definition healthCheck ::
  "(unit http_request \<Rightarrow> js_error + 'b response) \<Rightarrow> string \<Rightarrow> js_error + 'b" where
  "healthCheck fetch baseUrl =
     try_catch
       (await (fetch (GET (baseUrl @ ''/health'') []))
          (\<lambda>response. case response of
             NotOk json \<Rightarrow> Inl (Error ''Health check failed'')
           | IsOk json \<Rightarrow> json))
       (\<lambda>error. Inl error)"

definition searchByEmotion ::
  "(nat \<Rightarrow> string) \<Rightarrow> (PlaylistGenerationRequest http_request \<Rightarrow> js_error + playlist_data response)
     \<Rightarrow> string \<Rightarrow> string \<Rightarrow> int option \<Rightarrow> js_error + PlaylistGenerationResponse" where
  "searchByEmotion random36 fetch baseUrl emotion' numResults =
     generatePlaylist random36 fetch baseUrl
       \<lparr>songs = None, artists = None,
        emotion = Some [emotion'],
        num_results = Some (case numResults of None \<Rightarrow> 20 | Some n \<Rightarrow> n),
        enrich_with_lyrics = None\<rparr>"

definition getRecommendations ::
  "(nat \<Rightarrow> string) \<Rightarrow> (PlaylistGenerationRequest http_request \<Rightarrow> js_error + playlist_data response)
     \<Rightarrow> string \<Rightarrow> seed_track list \<Rightarrow> string option \<Rightarrow> int option
     \<Rightarrow> js_error + PlaylistGenerationResponse" where
  "getRecommendations random36 fetch baseUrl seedTracks emotion' numResults =
     generatePlaylist random36 fetch baseUrl
       \<lparr>songs = Some (map (\<lambda>track.
                  \<lparr>seed_song_name = seed_track_name track,
                   seed_artist = seed_track_artist track,
                   seed_spotify_id = seed_track_spotify_id track\<rparr>) seedTracks),
        artists = None,
        emotion = (case emotion' of
                     None \<Rightarrow> None
                   | Some e \<Rightarrow> (if e \<noteq> [] then Some [e] else None)),
        num_results = Some (case numResults of None \<Rightarrow> 20 | Some n \<Rightarrow> n),
        enrich_with_lyrics = None\<rparr>"

text \<open>\<open>new URLSearchParams({...})\<close> followed by \<open>params.append('artist', artist)\<close> when
  \<open>artist\<close> is truthy.\<close>

definition search_params :: "string \<Rightarrow> string \<Rightarrow> string option \<Rightarrow> (string \<times> string) list" where
  "search_params songName limit artist =
     [(''song_name'', songName), (''limit'', limit)]
       @ (case artist of
            None \<Rightarrow> []
          | Some a \<Rightarrow> (if a \<noteq> [] then [(''artist'', a)] else []))"

definition searchTrack ::
  "(unit http_request \<Rightarrow> js_error + 't tracks_data response) \<Rightarrow> string \<Rightarrow> string \<Rightarrow> string option
     \<Rightarrow> js_error + 't option" where
  "searchTrack fetch baseUrl songName artist =
     try_catch
       (await (fetch (GET (baseUrl @ ''/spotify/search'') (search_params songName ''1'' artist)))
          (\<lambda>response. case response of
             NotOk json \<Rightarrow> Inl (Error ''Failed to search track'')
           | IsOk json \<Rightarrow>
               await json (\<lambda>data. Inr
                 (case data_tracks data of
                    None \<Rightarrow> None
                  | Some tracks \<Rightarrow> (if length tracks > 0 then Some (tracks ! 0) else None)))))
       (\<lambda>error. Inl error)"

definition found_to_track :: "found_track \<Rightarrow> SpotifyTrack" where
  "found_to_track track =
     \<lparr>track_id = or_else (found_spotify_id track) (found_id track),
      track_name = or_else (found_song_name track) (found_name track),
      track_artist = found_artist track,
      track_album = found_album track,
      track_preview_url = found_preview_url track,
      track_similarity_score = 0,
      track_external_url = found_external_url track,
      track_duration_ms = found_duration_ms track,
      track_popularity = found_popularity track,
      track_album_image = found_album_image track\<rparr>"

definition searchTracks ::
  "(unit http_request \<Rightarrow> js_error + found_track tracks_data response) \<Rightarrow> string \<Rightarrow> string
     \<Rightarrow> string option \<Rightarrow> int option \<Rightarrow> js_error + SpotifyTrack list" where
  "searchTracks fetch baseUrl songName artist limit =
     try_catch
       (await (fetch (GET (baseUrl @ ''/spotify/search'')
                 (search_params songName (toString (case limit of None \<Rightarrow> 10 | Some n \<Rightarrow> n)) artist)))
          (\<lambda>response. case response of
             NotOk json \<Rightarrow> Inl (Error ''Failed to search tracks'')
           | IsOk json \<Rightarrow>
               await json (\<lambda>data. Inr
                 (map found_to_track (case data_tracks data of None \<Rightarrow> [] | Some tracks \<Rightarrow> tracks)))))
       (\<lambda>error. Inr [])"

definition found_to_artist :: "found_artist_entry \<Rightarrow> SpotifyArtist" where
  "found_to_artist artist =
     \<lparr>artist_id = or_else (founda_spotify_id artist) (founda_id artist),
      artist_name = founda_name artist,
      artist_genres = (case founda_genres artist of None \<Rightarrow> [] | Some g \<Rightarrow> g),
      artist_popularity = (case founda_popularity artist of None \<Rightarrow> 0 | Some p \<Rightarrow> p),
      artist_image_url = founda_image_url artist,
      artist_external_url = founda_external_url artist\<rparr>"

definition searchArtists ::
  "(unit http_request \<Rightarrow> js_error + artists_data response) \<Rightarrow> string \<Rightarrow> string \<Rightarrow> int option
     \<Rightarrow> js_error + SpotifyArtist list" where
  "searchArtists fetch baseUrl artistName limit =
     try_catch
       (await (fetch (GET (baseUrl @ ''/spotify/artist/search'')
                 [(''artist_name'', artistName),
                  (''limit'', toString (case limit of None \<Rightarrow> 10 | Some n \<Rightarrow> n))]))
          (\<lambda>response. case response of
             NotOk json \<Rightarrow> Inl (Error ''Failed to search artists'')
           | IsOk json \<Rightarrow>
               await json (\<lambda>data. Inr
                 (map found_to_artist (case data_artists data of None \<Rightarrow> [] | Some as \<Rightarrow> as)))))
       (\<lambda>error. Inr [])"

definition getTrackById ::
  "(unit http_request \<Rightarrow> js_error + 't response) \<Rightarrow> string \<Rightarrow> string \<Rightarrow> js_error + 't" where
  "getTrackById fetch baseUrl trackId =
     try_catch
       (await (fetch (GET (baseUrl @ ''/spotify/track/'' @ trackId) []))
          (\<lambda>response. case response of
             NotOk json \<Rightarrow> Inl (Error ''Failed to get track'')
           | IsOk json \<Rightarrow> json))
       (\<lambda>error. Inl error)"

section \<open>The autocomplete components\<close>

text \<open>
  \<open>SongAutocomplete\<close> and \<open>ArtistAutocomplete\<close> hold the same state and the same effect on
  \<open>inputValue\<close>; they differ in the search they call. The state of a mounted component
  is its \<open>useState\<close> values and \<open>debounceTimer.current\<close>, together with what the runtime
  keeps for it: whether the last run of the effect returned a cleanup function, the clock
  in milliseconds, the pending timeouts with their identifier, due time and callback, and
  the searches awaited. \<open>searches\<close> records each call of the search and \<open>input_since\<close>
  the time \<open>inputValue\<close> last changed; the code reads neither.
\<close>

definition is_space :: "char \<Rightarrow> bool" where
  "is_space c \<longleftrightarrow> of_char c \<in> {9, 10, 11, 12, 13, 32, 160 :: nat}"

text \<open>\<open>s.trim()\<close>, on the white space and line terminators below code 256.\<close>

definition trim :: "string \<Rightarrow> string" where
  "trim s = rev (dropWhile is_space (rev (dropWhile is_space s)))"

datatype search_call = SearchTracks string "string option" int | SearchArtists string int

fun call_query :: "search_call \<Rightarrow> string" where
  "call_query (SearchTracks songName artist limit) = songName"
| "call_query (SearchArtists artistName limit) = artistName"

text \<open>The two callbacks handed to \<open>setTimeout\<close>: the debounced search, which closes over
  the \<open>inputValue\<close> of its render, and the hiding of the list after a blur.\<close>

datatype timeout_callback = DebouncedSearch string | HideSuggestions

record issued =
  issued_at :: nat
  issued_call :: search_call
  issued_input :: string
  issued_since :: nat

record 'r autocomplete =
  inputValue :: string
  suggestions :: "'r list"
  showSuggestions :: bool
  isLoading :: bool
  selectedIndex :: int
  debounceTimer :: "nat option"
  has_cleanup :: bool
  clock :: nat
  timeouts :: "(nat \<times> nat \<times> timeout_callback) list"
  next_timeout :: nat
  in_flight :: nat
  searches :: "issued list"
  input_since :: nat

definition setTimeout :: "timeout_callback \<Rightarrow> nat \<Rightarrow> 'r autocomplete \<Rightarrow> 'r autocomplete \<times> nat" where
  "setTimeout callback delay s =
     (s\<lparr>timeouts := timeouts s @ [(next_timeout s, clock s + delay, callback)],
        next_timeout := Suc (next_timeout s)\<rparr>,
      next_timeout s)"

definition clearTimeout :: "nat \<Rightarrow> 'r autocomplete \<Rightarrow> 'r autocomplete" where
  "clearTimeout t s = s\<lparr>timeouts := filter (\<lambda>(t', due, callback). t' \<noteq> t) (timeouts s)\<rparr>"

text \<open>\<open>if (debounceTimer.current) clearTimeout(debounceTimer.current)\<close>.\<close>

definition clear_debounce :: "'r autocomplete \<Rightarrow> 'r autocomplete" where
  "clear_debounce s = (case debounceTimer s of None \<Rightarrow> s | Some t \<Rightarrow> clearTimeout t s)"

text \<open>The body of \<open>useEffect(..., [inputValue])\<close>.\<close>

definition effect :: "'r autocomplete \<Rightarrow> 'r autocomplete" where
  "effect s =
     (if length (trim (inputValue s)) < 2 then
        s\<lparr>suggestions := [], showSuggestions := False, has_cleanup := False\<rparr>
      else
        (case setTimeout (DebouncedSearch (inputValue s)) 300 (clear_debounce s) of
           (s', t) \<Rightarrow> s'\<lparr>debounceTimer := Some t, has_cleanup := True\<rparr>))"

text \<open>The function the effect returned, when it returned one.\<close>

definition cleanup :: "'r autocomplete \<Rightarrow> 'r autocomplete" where
  "cleanup s = (if has_cleanup s then clear_debounce s else s)"

text \<open>\<open>setInputValue(v)\<close> and the render that follows: when the value changes, the
  cleanup of the previous effect runs, then the effect.\<close>

definition setInputValue :: "string \<Rightarrow> 'r autocomplete \<Rightarrow> 'r autocomplete" where
  "setInputValue v s =
     (if v = inputValue s then s
      else effect ((cleanup s)\<lparr>inputValue := v, input_since := clock s\<rparr>))"

text \<open>The callback of the debounce timeout, up to the \<open>await\<close>.\<close>

definition start_search :: "(string \<Rightarrow> search_call) \<Rightarrow> string \<Rightarrow> 'r autocomplete \<Rightarrow> 'r autocomplete" where
  "start_search search v s =
     s\<lparr>isLoading := True,
       in_flight := Suc (in_flight s),
       searches := searches s @
         [\<lparr>issued_at = clock s, issued_call = search v,
           issued_input = inputValue s, issued_since = input_since s\<rparr>]\<rparr>"

fun run_callback :: "(string \<Rightarrow> search_call) \<Rightarrow> timeout_callback \<Rightarrow> 'r autocomplete \<Rightarrow> 'r autocomplete" where
  "run_callback search (DebouncedSearch v) s = start_search search v s"
| "run_callback search HideSuggestions s = s\<lparr>showSuggestions := False\<rparr>"

text \<open>
  What can happen to a mounted component: \<open>onChange\<close> with the new value of the input,
  \<open>handleSelectSong\<close> or \<open>handleSelectArtist\<close>, \<open>onBlur\<close>, time passing, the runtime
  running the callback of a timeout that is due, and an awaited search resolving or
  rejecting. The key handlers and \<open>onFocus\<close> set \<open>showSuggestions\<close> and \<open>selectedIndex\<close>
  only, or call the select handler.
\<close>

datatype 'r event =
    Change string
  | Select
  | Blur
  | Elapse nat
  | Fire nat
  | Resolved "'r list"
  | Rejected

fun step :: "(string \<Rightarrow> search_call) \<Rightarrow> 'r autocomplete \<Rightarrow> 'r event \<Rightarrow> 'r autocomplete" where
  "step search s (Change v) = setInputValue v s"
| "step search s Select =
     setInputValue [] (s\<lparr>suggestions := [], showSuggestions := False, selectedIndex := - 1\<rparr>)"
| "step search s Blur = fst (setTimeout HideSuggestions 200 s)"
| "step search s (Elapse ms) = s\<lparr>clock := clock s + ms\<rparr>"
| "step search s (Fire t) =
     (case filter (\<lambda>(t', due, callback). t' = t \<and> due \<le> clock s) (timeouts s) of
        [] \<Rightarrow> s
      | (t', due, callback) # others \<Rightarrow> run_callback search callback (clearTimeout t s))"
| "step search s (Resolved results) =
     (if in_flight s = 0 then s
      else s\<lparr>suggestions := results, showSuggestions := (length results > 0),
             selectedIndex := - 1, isLoading := False, in_flight := in_flight s - 1\<rparr>)"
| "step search s Rejected =
     (if in_flight s = 0 then s
      else s\<lparr>suggestions := [], isLoading := False, in_flight := in_flight s - 1\<rparr>)"

text \<open>A component that calls \<open>search\<close>: the initial \<open>useState\<close> and \<open>useRef\<close> values,
  the first render, in which the effect runs once, and the events that follow. The
  identifiers \<open>setTimeout\<close> returns are positive, hence truthy.\<close>

definition mounted :: "(string \<Rightarrow> search_call) \<Rightarrow> 'r event list \<Rightarrow> 'r autocomplete" where
  "mounted search events =
     foldl (step search)
       (effect
          \<lparr>inputValue = [], suggestions = [], showSuggestions = False, isLoading = False,
           selectedIndex = - 1, debounceTimer = None, has_cleanup = False, clock = 0,
           timeouts = [], next_timeout = 1, in_flight = 0, searches = [], input_since = 0\<rparr>)
       events"

definition SongAutocomplete :: "SpotifyTrack event list \<Rightarrow> SpotifyTrack autocomplete" where
  "SongAutocomplete events = mounted (\<lambda>inputValue. SearchTracks inputValue None 8) events"

definition ArtistAutocomplete :: "SpotifyArtist event list \<Rightarrow> SpotifyArtist autocomplete" where
  "ArtistAutocomplete events = mounted (\<lambda>inputValue. SearchArtists inputValue 8) events"

section \<open>The component \<open>MoodCollageDisplay\<close>\<close>

text \<open>
  What a component renders is a tree of elements, each with its tag, its attributes and
  its children. Event handlers are not part of the tree; a \<open>style\<close> object gives one
  attribute for each of its properties. \<open>toFixed2\<close> stands for \<open>value.toFixed(2)\<close>.
\<close>

datatype vnode = Element string "(string \<times> string) list" "vnode list" | Text string

text \<open>\<open>typeof value === 'number' ? value.toFixed(2) : String(value)\<close>.\<close>

fun param_text :: "(real \<Rightarrow> string) \<Rightarrow> param_value \<Rightarrow> string" where
  "param_text toFixed2 (Num x) = toFixed2 x"
| "param_text toFixed2 (Str s) = s"
| "param_text toFixed2 (Bool b) = (if b then ''true'' else ''false'')"

definition replace_underscores :: "string \<Rightarrow> string" where
  "replace_underscores key = map (\<lambda>c. if c = CHR ''_'' then CHR '' '' else c) key"

definition swatch :: "nat \<times> string \<Rightarrow> vnode" where
  "swatch entry = (case entry of (index, color) \<Rightarrow>
     Element ''div''
       [(''key'', toString (int index)),
        (''className'', ''w-8 h-8 rounded-full border-2 border-white/30''),
        (''style.backgroundColor'', color),
        (''title'', color)] [])"

definition visual_param :: "(real \<Rightarrow> string) \<Rightarrow> string \<times> param_value \<Rightarrow> vnode" where
  "visual_param toFixed2 entry = (case entry of (key, v) \<Rightarrow>
     Element ''div'' [(''key'', key), (''className'', ''flex flex-col'')]
       [Element ''span'' [(''className'', ''text-zinc-400 capitalize'')]
          [Text (replace_underscores key)],
        Element ''span'' [(''className'', ''text-white font-mono'')]
          [Text (param_text toFixed2 v)]])"

definition MoodCollageDisplay ::
  "(real \<Rightarrow> string) \<Rightarrow> bool \<Rightarrow> MoodCollage \<Rightarrow> string option \<Rightarrow> vnode" where
  "MoodCollageDisplay toFixed2 isExpanded collage emotion' =
     Element ''div'' [(''className'', ''w-full'')]
       [Element ''div'' [(''className'', ''flex items-center justify-between mb-4'')]
          [Element ''h3'' [(''className'', ''text-lg font-semibold text-white'')]
             [Text ''Mood Visualization''],
           Element ''button''
             [(''className'', ''text-sm text-zinc-400 hover:text-white transition-colors'')]
             [Text (if isExpanded then ''Collapse'' else ''Expand'')]],
        Element ''div''
          [(''className'', ''transition-all duration-300 '' @ (if isExpanded then ''h-auto'' else ''h-64''))]
          ([Element ''div'' [(''className'', ''relative rounded-lg overflow-hidden'')]
              [Element ''img''
                 [(''src'', ''data:image/png;base64,'' @ image_base64 collage),
                  (''alt'', or_else emotion' ''Mood'' @ '' visualization''),
                  (''className'', ''w-full h-auto object-cover'')] [],
               Element ''div''
                 [(''className'',
                   ''absolute bottom-0 left-0 right-0 p-4 bg-gradient-to-t from-black/80 to-transparent'')]
                 [Element ''div'' [(''className'', ''flex gap-2'')]
                    (map swatch (enumerate 0 (take 5 (dominant_colors collage))))]]]
           @ (if isExpanded then
                [Element ''div'' [(''className'', ''mt-4 p-4 bg-white/5 rounded-lg'')]
                   [Element ''h4'' [(''className'', ''text-sm font-semibold text-white mb-2'')]
                      [Text ''Visual Parameters''],
                    Element ''div'' [(''className'', ''grid grid-cols-2 md:grid-cols-3 gap-3 text-xs'')]
                      (map (visual_param toFixed2) (visual_params collage))]]
              else []))]"

text \<open>Reading a rendered tree: the elements with a given tag and those with a given
  \<open>className\<close>, in document order, and the value of an attribute.\<close>

fun elements :: "string \<Rightarrow> vnode \<Rightarrow> vnode list" where
  "elements tag (Text t) = []"
| "elements tag (Element tag' attrs children) =
     (if tag' = tag then [Element tag' attrs children] else [])
       @ concat (map (elements tag) children)"

fun with_class :: "string \<Rightarrow> vnode \<Rightarrow> vnode list" where
  "with_class c (Text t) = []"
| "with_class c (Element tag attrs children) =
     (if map_of attrs ''className'' = Some c then [Element tag attrs children] else [])
       @ concat (map (with_class c) children)"

fun attribute :: "string \<Rightarrow> vnode \<Rightarrow> string option" where
  "attribute a (Text t) = None"
| "attribute a (Element tag attrs children) = map_of attrs a"

section \<open>\<open>shuffleArray\<close>\<close>



text \<open>The number of binary digits of a natural number.\<close>

fun bit_length :: "nat \<Rightarrow> nat" where
  "bit_length n = (if n = 0 then 0 else Suc (bit_length (n div 2)))"

declare bit_length.simps [simp del]

text \<open>The integer nearest to \<open>p / 2\<^sup>k\<close>, the even one of the two when \<open>p / 2\<^sup>k\<close> is halfway
  between them.\<close>

definition round_half_even :: "nat \<Rightarrow> nat \<Rightarrow> nat" where
  "round_half_even p k =
     (let q = p div 2 ^ k; r = p mod 2 ^ k
      in if 2 * r < 2 ^ k then q
         else if 2 * r > 2 ^ k then q + 1
         else if even q then q else q + 1)"

text \<open>
  \<open>Math.random() * (i + 1)\<close>: the double nearest to the exact product \<open>m * n / 2\<^sup>s\<close>, ties
  to the even mantissa. The integer \<open>n\<close> is below \<open>2\<^sup>5\<^sup>3\<close> and so is a double itself. A
  numerator \<open>m * n\<close> of at most 53 binary digits is the mantissa of a double at scale \<open>s\<close>,
  and the product is exact; a longer one is rounded to its leading 53 digits.
\<close>

definition multiply :: "nat \<times> nat \<Rightarrow> nat \<Rightarrow> real" where
  "multiply d n = (case d of (m, s) \<Rightarrow>
     (let p = m * n; k = bit_length p - 53
      in if bit_length p \<le> 53 then real p / 2 ^ s
         else real (round_half_even p k * 2 ^ k) / 2 ^ s))"




section \<open>Vocabulary of the statements\<close>

text \<open>A request has failed when \<open>fetch\<close> rejected or the response is not ok.\<close>

definition request_failed :: "js_error + 'b response \<Rightarrow> bool" where
  "request_failed r = (case r of Inl e \<Rightarrow> True | Inr (NotOk j) \<Rightarrow> True | Inr (IsOk j) \<Rightarrow> False)"

text \<open>The number of random draws \<open>data.playlist.map\<close> has made before it reaches the
  song at position \<open>i\<close>: one for each earlier song whose \<open>spotify_id\<close> is falsy.\<close>

definition draws_before :: "backend_song list \<Rightarrow> nat \<Rightarrow> nat" where
  "draws_before ss i = length (filter (\<lambda>song. \<not> truthy (song_spotify_id song)) (take i ss))"

text \<open>\<open>getRecommendations\<close> as the specification words it: the emotion is wrapped in a
  singleton list when present and omitted otherwise.\<close>

definition getRecommendations_spec ::
  "(nat \<Rightarrow> string) \<Rightarrow> (PlaylistGenerationRequest http_request \<Rightarrow> js_error + playlist_data response)
     \<Rightarrow> string \<Rightarrow> seed_track list \<Rightarrow> string option \<Rightarrow> int
     \<Rightarrow> js_error + PlaylistGenerationResponse" where
  "getRecommendations_spec random36 fetch baseUrl seeds emotion' n =
     generatePlaylist random36 fetch baseUrl
       \<lparr>songs = Some (map (\<lambda>seed.
                  \<lparr>seed_song_name = seed_track_name seed,
                   seed_artist = seed_track_artist seed,
                   seed_spotify_id = seed_track_spotify_id seed\<rparr>) seeds),
        artists = None,
        emotion = (case emotion' of None \<Rightarrow> None | Some e \<Rightarrow> Some [e]),
        num_results = Some n,
        enrich_with_lyrics = None\<rparr>"

text \<open>
  What holds of a mounted autocomplete component at every moment. A pending debounce
  timeout is the one \<open>debounceTimer.current\<close> names, it closes over the current input, it
  is due 300 ms after the input last changed, and that input has two characters or more
  once trimmed. A search that was issued was called with the input of that moment, which
  had then been unchanged for 300 ms and had two characters or more once trimmed.
\<close>

definition pending_ok :: "'r autocomplete \<Rightarrow> bool" where
  "pending_ok s \<longleftrightarrow>
     (\<forall>t due v. (t, due, DebouncedSearch v) \<in> set (timeouts s) \<longrightarrow>
        debounceTimer s = Some t \<and> has_cleanup s \<and> v = inputValue s
      \<and> due = input_since s + 300 \<and> 2 \<le> length (trim v))"

definition issued_ok :: "(string \<Rightarrow> search_call) \<Rightarrow> issued \<Rightarrow> bool" where
  "issued_ok search r \<longleftrightarrow>
     issued_call r = search (issued_input r) \<and> issued_since r + 300 \<le> issued_at r
   \<and> 2 \<le> length (trim (issued_input r))"

definition debounce_inv :: "(string \<Rightarrow> search_call) \<Rightarrow> 'r autocomplete \<Rightarrow> bool" where
  "debounce_inv search s \<longleftrightarrow> pending_ok s \<and> (\<forall>r \<in> set (searches s). issued_ok search r)"

text \<open>No debounce timeout is pending: every pending timeout is the one set by \<open>onBlur\<close>.\<close>

definition no_search_pending :: "'r autocomplete \<Rightarrow> bool" where
  "no_search_pending s \<longleftrightarrow> (\<forall>(t, due, callback) \<in> set (timeouts s). callback = HideSuggestions)"

text \<open>The \<open>className\<close> of a colour swatch of \<open>MoodCollageDisplay\<close>.\<close>

definition swatch_class :: string where
  "swatch_class = ''w-8 h-8 rounded-full border-2 border-white/30''"

subsection \<open>Concrete environments\<close>

definition API_BASE_URL :: string where
  "API_BASE_URL = ''http://localhost:8000/api/v1''"

definition sample_random36 :: "nat \<Rightarrow> string" where
  "sample_random36 k = ''0.4fzyo82mvyr''"

text \<open>A backend that cannot be reached.\<close>

definition offline :: "'q http_request \<Rightarrow> js_error + 'b response" where
  "offline request = Inl (TypeError ''Failed to fetch'')"

text \<open>A backend that answers every request with status 503.\<close>

definition unavailable :: "'q http_request \<Rightarrow> js_error + 'b response" where
  "unavailable request = Inr (NotOk (Inr \<lparr>detail = Some ''Service Unavailable''\<rparr>))"

text \<open>A backend that refuses every playlist request and names the emotion list it
  received in the detail of its answer.\<close>

definition refusing :: "PlaylistGenerationRequest http_request \<Rightarrow> js_error + playlist_data response" where
  "refusing request =
     Inr (NotOk (Inr \<lparr>detail =
       (case body request of
          None \<Rightarrow> Some ''no body''
        | Some r \<Rightarrow>
            (case emotion r of
               None \<Rightarrow> Some ''no emotion''
             | Some es \<Rightarrow> Some (''emotions: '' @ concat (map (\<lambda>e. CHR ''<'' # e @ ''>'') es))))\<rparr>))"

definition happy_request :: PlaylistGenerationRequest where
  "happy_request = \<lparr>songs = None, artists = None, emotion = Some [''happy''],
                    num_results = Some 10, enrich_with_lyrics = None\<rparr>"

definition sample_collage :: MoodCollage where
  "sample_collage = \<lparr>image_base64 = ''iVBORw0KGgo='',
     dominant_colors = [''#FFD700'', ''#FFA500'', ''#FF6347'', ''#FF4500'', ''#DC143C'', ''#8B0000''],
     visual_params = [(''color_saturation'', Num (4 / 5)), (''style'', Str ''warm'')],
     width = 800, height = 800\<rparr>"

definition sample_songs :: "backend_song list" where
  "sample_songs =
     [\<lparr>song_spotify_id = Some ''3n3Ppam7vgaVa1iaRUc9Lp'', song_song_name = ''Mr. Brightside'',
       song_artist = ''The Killers'', song_album = Some ''Hot Fuss'', song_preview_url = None,
       song_similarity_score = 9 / 10, song_external_url = None, song_duration_ms = Some 222973,
       song_popularity = Some 88, song_album_image = None\<rparr>,
      \<lparr>song_spotify_id = None, song_song_name = ''Happy'',
       song_artist = ''Pharrell Williams'', song_album = None, song_preview_url = None,
       song_similarity_score = 4 / 5, song_external_url = None, song_duration_ms = None,
       song_popularity = None, song_album_image = None\<rparr>]"

definition sample_data :: playlist_data where
  "sample_data = \<lparr>data_playlist = sample_songs,
                   data_mood_collage = Some sample_collage,
                   data_emotion_features = Some [(''valence'', 9 / 10)],
                   data_combined_embedding = None\<rparr>"

text \<open>A backend that answers a playlist request with two songs, a collage and audio
  features.\<close>

definition answering :: "PlaylistGenerationRequest http_request \<Rightarrow> js_error + playlist_data response" where
  "answering request = Inr (IsOk (Inr sample_data))"

definition answering_emotions :: "unit http_request \<Rightarrow> js_error + emotions_data response" where
  "answering_emotions request = Inr (IsOk (Inr \<lparr>data_emotions = Some [''happy'', ''sad'']\<rparr>))"

text \<open>A backend that answers every request with status 200 and a page of HTML.\<close>

definition ok_bad_body :: "'q http_request \<Rightarrow> js_error + 'b response" where
  "ok_bad_body request = Inr (IsOk (Inl (SyntaxError ''Unexpected token < in JSON at position 0'')))"


definition answering_health :: "unit http_request \<Rightarrow> js_error + health_data response" where
  "answering_health request = Inr (IsOk (Inr \<lparr>status = ''healthy'', version = ''1.0.0''\<rparr>))"



text \<open>A track and an artist that a search returns.\<close>

definition sample_track :: SpotifyTrack where
  "sample_track = \<lparr>track_id = ''3n3Ppam7vgaVa1iaRUc9Lp'', track_name = ''Mr. Brightside'',
     track_artist = ''The Killers'', track_album = None, track_preview_url = None,
     track_similarity_score = 0, track_external_url = None, track_duration_ms = None,
     track_popularity = None, track_album_image = None\<rparr>"

definition sample_artist :: SpotifyArtist where
  "sample_artist = \<lparr>artist_id = ''0C0XlULifJtAgn6ZNCW2eu'', artist_name = ''The Killers'',
     artist_genres = [], artist_popularity = 0, artist_image_url = None,
     artist_external_url = ''https://open.spotify.com/artist/0C0XlULifJtAgn6ZNCW2eu''\<rparr>"

section \<open>The client: failures\<close>

lemma request_failed_cases:
  "request_failed r \<Longrightarrow> (\<exists>e. r = Inl e) \<or> (\<exists>j. r = Inr (NotOk j))"
  by (auto simp: request_failed_def split: sum.splits response.splits)

lemma generatePlaylist_failed:
  "request_failed (fetch (generate_playlist_request baseUrl request)) \<Longrightarrow>
   isl (generatePlaylist random36 fetch baseUrl request)"
  by (auto dest!: request_failed_cases
      simp: generatePlaylist_def try_catch_def await_def
      split: sum.splits)

lemma healthCheck_failed:
  "request_failed (fetch (GET (baseUrl @ ''/health'') [])) \<Longrightarrow> isl (healthCheck fetch baseUrl)"
  by (auto dest!: request_failed_cases simp: healthCheck_def try_catch_def await_def)

lemma searchTrack_failed:
  "request_failed (fetch (GET (baseUrl @ ''/spotify/search'') (search_params songName ''1'' artist))) \<Longrightarrow>
   isl (searchTrack fetch baseUrl songName artist)"
  by (auto dest!: request_failed_cases simp: searchTrack_def try_catch_def await_def)

lemma getTrackById_failed:
  "request_failed (fetch (GET (baseUrl @ ''/spotify/track/'' @ trackId) [])) \<Longrightarrow>
   isl (getTrackById fetch baseUrl trackId)"
  by (auto dest!: request_failed_cases simp: getTrackById_def try_catch_def await_def)

lemma getEmotions_failed:
  "request_failed (fetch (GET (baseUrl @ ''/emotions'') [])) \<Longrightarrow>
   getEmotions fetch baseUrl = Inr (Some DEFAULT_EMOTIONS)"
  by (auto dest!: request_failed_cases simp: getEmotions_def try_catch_def await_def)

lemma searchTracks_failed:
  "request_failed (fetch (GET (baseUrl @ ''/spotify/search'')
      (search_params songName (toString (case limit of None \<Rightarrow> 10 | Some n \<Rightarrow> n)) artist))) \<Longrightarrow>
   searchTracks fetch baseUrl songName artist limit = Inr []"
  by (auto dest!: request_failed_cases simp: searchTracks_def try_catch_def await_def)

lemma searchArtists_failed:
  "request_failed (fetch (GET (baseUrl @ ''/spotify/artist/search'')
      [(''artist_name'', artistName), (''limit'', toString (case limit of None \<Rightarrow> 10 | Some n \<Rightarrow> n))])) \<Longrightarrow>
   searchArtists fetch baseUrl artistName limit = Inr []"
  by (auto dest!: request_failed_cases simp: searchArtists_def try_catch_def await_def)

text \<open>
  Claim C1, as the code has it. When the request of a method fails (\<open>fetch\<close> rejects or
  the response is not ok), \<open>generatePlaylist\<close>, \<open>healthCheck\<close>, \<open>searchTrack\<close> and
  \<open>getTrackById\<close> reject; \<open>getEmotions\<close> resolves to the ten built-in emotion labels;
  \<open>searchTracks\<close> and \<open>searchArtists\<close> resolve to the empty list.
\<close>

theorem failed_request_outcomes:
  "(request_failed (fetchP (generate_playlist_request baseUrl request)) \<longrightarrow>
      isl (generatePlaylist rand fetchP baseUrl request))
 \<and> (request_failed (fetchH (GET (baseUrl @ ''/health'') [])) \<longrightarrow>
      isl (healthCheck fetchH baseUrl))
 \<and> (request_failed (fetchS (GET (baseUrl @ ''/spotify/search'') (search_params songName ''1'' artist))) \<longrightarrow>
      isl (searchTrack fetchS baseUrl songName artist))
 \<and> (request_failed (fetchT (GET (baseUrl @ ''/spotify/track/'' @ trackId) [])) \<longrightarrow>
      isl (getTrackById fetchT baseUrl trackId))
 \<and> (request_failed (fetchE (GET (baseUrl @ ''/emotions'') [])) \<longrightarrow>
      getEmotions fetchE baseUrl = Inr (Some DEFAULT_EMOTIONS))
 \<and> (request_failed (fetchL (GET (baseUrl @ ''/spotify/search'')
        (search_params songName (toString (case limit of None \<Rightarrow> 10 | Some n \<Rightarrow> n)) artist))) \<longrightarrow>
      searchTracks fetchL baseUrl songName artist limit = Inr [])
 \<and> (request_failed (fetchA (GET (baseUrl @ ''/spotify/artist/search'')
        [(''artist_name'', artistName), (''limit'', toString (case limit of None \<Rightarrow> 10 | Some n \<Rightarrow> n))])) \<longrightarrow>
      searchArtists fetchA baseUrl artistName limit = Inr [])"
  by (intro conjI impI)
    (erule generatePlaylist_failed healthCheck_failed searchTrack_failed getTrackById_failed
      getEmotions_failed searchTracks_failed searchArtists_failed)+

text \<open>The statement above at an unreachable backend and at one that answers 503.\<close>

theorem failed_request_outcomes_witness:
  "isl (generatePlaylist sample_random36 unavailable API_BASE_URL happy_request)
 \<and> isl (healthCheck (offline :: unit http_request \<Rightarrow> js_error + health_data response)
          API_BASE_URL)
 \<and> isl (searchTrack (offline :: unit http_request \<Rightarrow> js_error + found_track tracks_data response)
          API_BASE_URL ''Happy'' None)
 \<and> isl (getTrackById (unavailable :: unit http_request \<Rightarrow> js_error + found_track response)
          API_BASE_URL ''3n3Ppam7vgaVa1iaRUc9Lp'')
 \<and> getEmotions unavailable API_BASE_URL = Inr (Some DEFAULT_EMOTIONS)
 \<and> searchTracks offline API_BASE_URL ''Happy'' None (Some 8) = Inr []
 \<and> searchArtists unavailable API_BASE_URL ''Queen'' (Some 8) = Inr []"
  using failed_request_outcomes [where fetchP = unavailable
      and fetchH = "offline :: unit http_request \<Rightarrow> js_error + health_data response"
      and fetchS = "offline :: unit http_request \<Rightarrow> js_error + found_track tracks_data response"
      and fetchT = "unavailable :: unit http_request \<Rightarrow> js_error + found_track response"
      and fetchE = unavailable and fetchL = offline and fetchA = unavailable
      and baseUrl = API_BASE_URL and request = happy_request and rand = sample_random36
      and songName = "''Happy''" and artist = None and trackId = "''3n3Ppam7vgaVa1iaRUc9Lp''"
      and limit = "Some 8" and artistName = "''Queen''"]
  by (simp add: request_failed_def offline_def unavailable_def)

text \<open>
  Claim C1 as the specification states it, that every method forwards the failure as a
  rejected promise, fails for \<open>getEmotions\<close>: with the backend unreachable it resolves to
  the built-in list.
\<close>

theorem getEmotions_offline_counterexample:
  "getEmotions offline API_BASE_URL = Inr (Some DEFAULT_EMOTIONS)"
  by (simp add: getEmotions_def offline_def try_catch_def await_def)


section \<open>The client: playlists\<close>

lemma map_songs_length: "length (map_songs random36 k ss) = length ss"
  by (induction ss arbitrary: k) (auto simp: song_to_track_def)

lemma map_songs_nth:
  "i < length ss \<Longrightarrow>
   map_songs random36 k ss ! i = fst (song_to_track random36 (k + draws_before ss i) (ss ! i))"
proof (induction ss arbitrary: k i)
  case Nil
  then show ?case by simp
next
  case (Cons song rest)
  show ?case
  proof (cases i)
    case 0
    then show ?thesis by (simp add: draws_before_def song_to_track_def)
  next
    case (Suc i')
    then have "i' < length rest" using Cons.prems by simp
    from Cons.IH[OF this] show ?thesis
      using Suc by (simp add: draws_before_def song_to_track_def)
  qed
qed

lemma generatePlaylist_ok:
  "fetch (generate_playlist_request baseUrl request) = Inr (IsOk (Inr data)) \<Longrightarrow>
   generatePlaylist random36 fetch baseUrl request =
     Inr \<lparr>playlist = map_songs random36 0 (data_playlist data),
          emotion_features = data_emotion_features data,
          combined_embedding = data_combined_embedding data\<rparr>"
  by (simp add: generatePlaylist_def try_catch_def await_def)

text \<open>
  Claim C2. \<open>generatePlaylist\<close> posts the request to \<open>/generate-playlist\<close>, and the
  response it builds has the three fields \<open>playlist\<close>, \<open>emotion_features\<close> and
  \<open>combined_embedding\<close>: at a backend whose answer carries a mood collage, the collage
  is not in the result.
\<close>

theorem generatePlaylist_drops_collage:
  "generatePlaylist sample_random36 answering API_BASE_URL happy_request =
     Inr \<lparr>playlist = map_songs sample_random36 0 sample_songs,
          emotion_features = Some [(''valence'', 9 / 10)],
          combined_embedding = None\<rparr>"
  by (simp add: generatePlaylist_def try_catch_def await_def answering_def sample_data_def)

text \<open>
  Claim C3. For every ok response with a decoded body, \<open>generatePlaylist\<close> resolves to a
  playlist of the same length as the backend's, and the track at each position has the
  name (from \<open>song_name\<close>), artist, album, preview_url, similarity_score, external_url,
  duration_ms, popularity and album_image of the backend song at that position.
\<close>

theorem generatePlaylist_mirrors_playlist:
  assumes "fetch (generate_playlist_request baseUrl request) = Inr (IsOk (Inr data))"
  shows "\<exists>response. generatePlaylist rand fetch baseUrl request = Inr response
     \<and> length (playlist response) = length (data_playlist data)
     \<and> (\<forall>i < length (data_playlist data).
          track_name (playlist response ! i) = song_song_name (data_playlist data ! i)
        \<and> track_artist (playlist response ! i) = song_artist (data_playlist data ! i)
        \<and> track_album (playlist response ! i) = song_album (data_playlist data ! i)
        \<and> track_preview_url (playlist response ! i) = song_preview_url (data_playlist data ! i)
        \<and> track_similarity_score (playlist response ! i) = song_similarity_score (data_playlist data ! i)
        \<and> track_external_url (playlist response ! i) = song_external_url (data_playlist data ! i)
        \<and> track_duration_ms (playlist response ! i) = song_duration_ms (data_playlist data ! i)
        \<and> track_popularity (playlist response ! i) = song_popularity (data_playlist data ! i)
        \<and> track_album_image (playlist response ! i) = song_album_image (data_playlist data ! i))"
  using assms generatePlaylist_ok [of fetch baseUrl request data rand]
  by (simp add: map_songs_length map_songs_nth song_to_track_def)

text \<open>The statement at a backend that answers with two songs.\<close>

theorem generatePlaylist_mirrors_playlist_witness:
  "answering (generate_playlist_request API_BASE_URL happy_request) = Inr (IsOk (Inr sample_data))
 \<and> (\<exists>response. generatePlaylist sample_random36 answering API_BASE_URL happy_request = Inr response
     \<and> length (playlist response) = 2
     \<and> (\<forall>i < 2.
          track_name (playlist response ! i) = song_song_name (sample_songs ! i)
        \<and> track_artist (playlist response ! i) = song_artist (sample_songs ! i)
        \<and> track_album (playlist response ! i) = song_album (sample_songs ! i)
        \<and> track_preview_url (playlist response ! i) = song_preview_url (sample_songs ! i)
        \<and> track_similarity_score (playlist response ! i) = song_similarity_score (sample_songs ! i)
        \<and> track_external_url (playlist response ! i) = song_external_url (sample_songs ! i)
        \<and> track_duration_ms (playlist response ! i) = song_duration_ms (sample_songs ! i)
        \<and> track_popularity (playlist response ! i) = song_popularity (sample_songs ! i)
        \<and> track_album_image (playlist response ! i) = song_album_image (sample_songs ! i)))"
proof -
  have ok: "answering (generate_playlist_request API_BASE_URL happy_request) = Inr (IsOk (Inr sample_data))"
    by (simp add: answering_def)
  have two: "length (data_playlist sample_data) = 2" "data_playlist sample_data = sample_songs"
    by (simp_all add: sample_data_def sample_songs_def)
  show ?thesis
    using ok two
      generatePlaylist_mirrors_playlist [of answering API_BASE_URL happy_request sample_data sample_random36]
    by simp
qed

text \<open>
  Claim C9. For every track of a successful \<open>generatePlaylist\<close> response, the id is the
  backend song's \<open>spotify_id\<close> when that is present and not empty; otherwise it is
  \<open>track-\<close> followed by at most nine characters of a random draw made for this track;
  and the id is never empty.
\<close>

theorem generatePlaylist_track_ids:
  assumes "fetch (generate_playlist_request baseUrl request) = Inr (IsOk (Inr data))"
    and "i < length (data_playlist data)"
  shows "\<exists>response. generatePlaylist rand fetch baseUrl request = Inr response
     \<and> (\<forall>s. song_spotify_id (data_playlist data ! i) = Some s \<and> s \<noteq> [] \<longrightarrow>
            track_id (playlist response ! i) = s)
     \<and> (\<not> truthy (song_spotify_id (data_playlist data ! i)) \<longrightarrow>
            track_id (playlist response ! i) =
              ''track-'' @ substr (rand (draws_before (data_playlist data) i)) 2 9)
     \<and> track_id (playlist response ! i) \<noteq> []"
proof -
  let ?song = "data_playlist data ! i"
  have "track_id (fst (song_to_track rand k ?song)) =
          or_else (song_spotify_id ?song) (''track-'' @ substr (rand k) 2 9)" for k
    by (simp add: song_to_track_def)
  then show ?thesis
    using assms generatePlaylist_ok [of fetch baseUrl request data rand]
    by (cases "song_spotify_id ?song") (auto simp: map_songs_nth)
qed

text \<open>The statement at a backend whose first song has a \<open>spotify_id\<close> and whose second
  has none.\<close>

theorem generatePlaylist_track_ids_witness:
  "answering (generate_playlist_request API_BASE_URL happy_request) = Inr (IsOk (Inr sample_data))
 \<and> (1::nat) < length (data_playlist sample_data)
 \<and> (\<exists>response. generatePlaylist sample_random36 answering API_BASE_URL happy_request = Inr response
     \<and> track_id (playlist response ! 0) = ''3n3Ppam7vgaVa1iaRUc9Lp''
     \<and> track_id (playlist response ! 1) = ''track-4fzyo82mv'')"
proof -
  have ok: "answering (generate_playlist_request API_BASE_URL happy_request) = Inr (IsOk (Inr sample_data))"
    by (simp add: answering_def)
  have len: "(0::nat) < length (data_playlist sample_data)" "(1::nat) < length (data_playlist sample_data)"
    by (simp_all add: sample_data_def sample_songs_def)
  have ids: "song_spotify_id (data_playlist sample_data ! 0) = Some ''3n3Ppam7vgaVa1iaRUc9Lp''"
    "\<not> truthy (song_spotify_id (data_playlist sample_data ! 1))"
    "draws_before (data_playlist sample_data) 1 = 0"
    by (simp_all add: sample_data_def sample_songs_def draws_before_def)
  show ?thesis
    using ok len ids
      generatePlaylist_track_ids [of answering API_BASE_URL happy_request sample_data 0 sample_random36]
      generatePlaylist_track_ids [of answering API_BASE_URL happy_request sample_data 1 sample_random36]
    by (auto simp: sample_random36_def substr_def)
qed

section \<open>The client: emotions and health\<close>



text \<open>
  Claim C6, as the code has it. \<open>healthCheck\<close> sends one request, a GET of \<open>/health\<close> under
  the base address with no query, headers or body, and its result is decided by the
  outcome of that request: for an ok response whose body is JSON it resolves to the
  decoded body, the service's status and version as the service sent them; for an ok
  response whose body is not JSON it rejects with the error of the decoding; for a
  response that is not ok it rejects with \<open>Health check failed\<close>; and when \<open>fetch\<close> rejects
  it rejects with the same error.
\<close>

theorem healthCheck_outcomes:
  "healthCheck fetch baseUrl =
     (case fetch \<lparr>http_method = ''GET'', url = baseUrl @ ''/health'', query = [],
                  headers = [], body = None\<rparr> of
        Inr (IsOk (Inr data)) \<Rightarrow> Inr data
      | Inr (IsOk (Inl error)) \<Rightarrow> Inl error
      | Inr (NotOk json) \<Rightarrow> Inl (Error ''Health check failed'')
      | Inl error \<Rightarrow> Inl error)"
  by (simp add: healthCheck_def GET_def try_catch_def await_def
      split: sum.splits response.splits)

text \<open>
  Claim C6 as the specification states it, that every ok response resolves, fails at an ok
  response whose body is not JSON: the promise rejects.
\<close>

theorem healthCheck_ok_counterexample:
  "healthCheck (ok_bad_body :: unit http_request \<Rightarrow> js_error + health_data response) API_BASE_URL =
     Inl (SyntaxError ''Unexpected token < in JSON at position 0'')"
  by (simp add: healthCheck_def ok_bad_body_def try_catch_def await_def)

text \<open>At a healthy backend the result is the status and version it sent, and at a backend
  that lists two emotions the result is that list.\<close>

lemma healthCheck_healthy:
  "healthCheck answering_health API_BASE_URL = Inr \<lparr>status = ''healthy'', version = ''1.0.0''\<rparr>"
  by (simp add: healthCheck_def answering_health_def try_catch_def await_def)

lemma getEmotions_listed:
  "getEmotions answering_emotions API_BASE_URL = Inr (Some [''happy'', ''sad''])"
  by (simp add: getEmotions_def answering_emotions_def try_catch_def await_def)

section \<open>The client: convenience methods\<close>

text \<open>
  Claim C8, as the code has it. \<open>searchByEmotion(emotion, n)\<close> is \<open>generatePlaylist\<close> on
  the request with the emotion in a singleton list and \<open>n\<close> results.
  \<open>getRecommendations(seeds, emotion, n)\<close> is \<open>generatePlaylist\<close> on the request with
  each seed as a song, \<open>n\<close> results, and the emotion in a singleton list when it is present
  and not the empty string, omitted otherwise.
\<close>

theorem convenience_methods_refine:
  "searchByEmotion rand fetch baseUrl e (Some n) =
     generatePlaylist rand fetch baseUrl
       \<lparr>songs = None, artists = None, emotion = Some [e], num_results = Some n,
        enrich_with_lyrics = None\<rparr>
 \<and> getRecommendations rand fetch baseUrl seeds em (Some n) =
     generatePlaylist rand fetch baseUrl
       \<lparr>songs = Some (map (\<lambda>seed.
                  \<lparr>seed_song_name = seed_track_name seed,
                   seed_artist = seed_track_artist seed,
                   seed_spotify_id = seed_track_spotify_id seed\<rparr>) seeds),
        artists = None,
        emotion = map_option (\<lambda>e. [e]) (if em = Some [] then None else em),
        num_results = Some n,
        enrich_with_lyrics = None\<rparr>"
  by (cases em) (simp_all add: searchByEmotion_def getRecommendations_def)

text \<open>
  Claim C8 as the specification states it, with the emotion wrapped whenever present,
  fails at the empty string: the code omits the emotion, and a backend that reports what
  it received tells the two requests apart.
\<close>

theorem getRecommendations_empty_emotion_counterexample:
  "getRecommendations sample_random36 refusing API_BASE_URL [] (Some []) (Some 20)
     \<noteq> getRecommendations_spec sample_random36 refusing API_BASE_URL [] (Some []) 20"
  by (simp add: getRecommendations_def getRecommendations_spec_def generatePlaylist_def
      generate_playlist_request_def refusing_def try_catch_def await_def)

section \<open>The autocomplete components: debouncing\<close>

lemma no_search_pending_iff:
  "no_search_pending s \<longleftrightarrow> (\<forall>t due v. (t, due, DebouncedSearch v) \<notin> set (timeouts s))"
  unfolding no_search_pending_def
  by (auto, metis timeout_callback.exhaust)

lemma no_search_pending_ok: "no_search_pending s \<Longrightarrow> pending_ok s"
  by (simp add: no_search_pending_iff pending_ok_def)

lemma cleanup_fields [simp]:
  "inputValue (cleanup s) = inputValue s" "searches (cleanup s) = searches s"
  "clock (cleanup s) = clock s" "input_since (cleanup s) = input_since s"
  "suggestions (cleanup s) = suggestions s" "showSuggestions (cleanup s) = showSuggestions s"
  by (simp_all add: cleanup_def clear_debounce_def clearTimeout_def split: option.splits)

lemma cleanup_clears: "pending_ok s \<Longrightarrow> no_search_pending (cleanup s)"
  unfolding no_search_pending_iff pending_ok_def
  by (auto simp: cleanup_def clear_debounce_def clearTimeout_def split: option.splits)

lemma clear_debounce_keeps: "no_search_pending s \<Longrightarrow> no_search_pending (clear_debounce s)"
  unfolding no_search_pending_iff
  by (auto simp: clear_debounce_def clearTimeout_def split: option.splits)

lemma clear_debounce_fields [simp]:
  "inputValue (clear_debounce s) = inputValue s" "searches (clear_debounce s) = searches s"
  "clock (clear_debounce s) = clock s" "input_since (clear_debounce s) = input_since s"
  by (simp_all add: clear_debounce_def clearTimeout_def split: option.splits)

lemma effect_searches [simp]: "searches (effect s) = searches s"
  by (simp add: effect_def setTimeout_def split: prod.splits)

lemma effect_short:
  "length (trim (inputValue s)) < 2 \<Longrightarrow>
   suggestions (effect s) = [] \<and> \<not> showSuggestions (effect s) \<and> timeouts (effect s) = timeouts s"
  by (simp add: effect_def)

lemma effect_pending:
  assumes "no_search_pending s" "input_since s = clock s"
  shows "pending_ok (effect s)"
proof (cases "length (trim (inputValue s)) < 2")
  case True
  then have "timeouts (effect s) = timeouts s" by (simp add: effect_def)
  then have "no_search_pending (effect s)" using assms(1) by (simp add: no_search_pending_def)
  then show ?thesis by (rule no_search_pending_ok)
next
  case False
  have "no_search_pending (clear_debounce s)" using assms(1) by (rule clear_debounce_keeps)
  then show ?thesis using False assms(2)
    unfolding pending_ok_def no_search_pending_iff
    by (auto simp: effect_def setTimeout_def)
qed

lemma setInputValue_inv:
  assumes "debounce_inv search s"
  shows "debounce_inv search (setInputValue v s)"
proof (cases "v = inputValue s")
  case True
  then show ?thesis using assms by (simp add: setInputValue_def)
next
  case False
  let ?s1 = "(cleanup s)\<lparr>inputValue := v, input_since := clock s\<rparr>"
  have "no_search_pending (cleanup s)" using assms by (simp add: debounce_inv_def cleanup_clears)
  then have "no_search_pending ?s1" by (simp add: no_search_pending_def)
  moreover have "input_since ?s1 = clock ?s1" by simp
  ultimately have "pending_ok (effect ?s1)" by (rule effect_pending)
  then show ?thesis using assms False by (simp add: setInputValue_def debounce_inv_def)
qed

lemma field_update_inv:
  "debounce_inv search s \<Longrightarrow>
   debounce_inv search (s\<lparr>suggestions := a, showSuggestions := b, selectedIndex := c\<rparr>)"
  by (simp add: debounce_inv_def pending_ok_def)

lemma fire_inv:
  assumes "debounce_inv search s"
  shows "debounce_inv search (step search s (Fire t))"
proof (cases "filter (\<lambda>(t', due, callback). t' = t \<and> due \<le> clock s) (timeouts s)")
  case Nil
  then show ?thesis using assms by simp
next
  case (Cons x others)
  obtain t' due callback where x: "x = (t', due, callback)" by (cases x) auto
  have "x \<in> set (filter (\<lambda>(t', due, callback). t' = t \<and> due \<le> clock s) (timeouts s))"
    using Cons by simp
  then have mem: "(t, due, callback) \<in> set (timeouts s)" and due: "due \<le> clock s" and tt: "t' = t"
    using x by auto
  have pend: "pending_ok (clearTimeout t s)"
    using assms unfolding debounce_inv_def pending_ok_def by (auto simp: clearTimeout_def)
  show ?thesis
  proof (cases callback)
    case HideSuggestions
    then show ?thesis using Cons x pend assms
      by (simp add: debounce_inv_def pending_ok_def clearTimeout_def)
  next
    case (DebouncedSearch v)
    have facts: "v = inputValue s" "due = input_since s + 300" "2 \<le> length (trim v)"
      using assms mem DebouncedSearch unfolding debounce_inv_def pending_ok_def by blast+
    have new: "issued_ok search \<lparr>issued_at = clock s, issued_call = search v,
        issued_input = inputValue s, issued_since = input_since s\<rparr>"
      using facts due by (simp add: issued_ok_def)
    show ?thesis using Cons x DebouncedSearch pend assms new
      by (auto simp: debounce_inv_def pending_ok_def clearTimeout_def start_search_def)
  qed
qed

lemma step_inv:
  assumes "debounce_inv search s"
  shows "debounce_inv search (step search s e)"
proof (cases e)
  case (Change v)
  then show ?thesis using assms by (simp add: setInputValue_inv)
next
  case Select
  then show ?thesis using assms by (simp add: setInputValue_inv field_update_inv)
next
  case Blur
  then show ?thesis using assms
    by (auto simp: debounce_inv_def pending_ok_def setTimeout_def)
next
  case (Elapse ms)
  then show ?thesis using assms by (simp add: debounce_inv_def pending_ok_def)
next
  case (Fire t)
  then show ?thesis using assms fire_inv by blast
next
  case (Resolved results)
  then show ?thesis using assms by (simp add: debounce_inv_def pending_ok_def)
next
  case Rejected
  then show ?thesis using assms by (simp add: debounce_inv_def pending_ok_def)
qed

lemma foldl_step_inv:
  "debounce_inv search s \<Longrightarrow> debounce_inv search (foldl (step search) s events)"
  by (induction events arbitrary: s) (simp_all add: step_inv)

lemma mounted_inv: "debounce_inv search (mounted search events)"
  unfolding mounted_def
  by (rule foldl_step_inv) (simp add: effect_def trim_def debounce_inv_def pending_ok_def)

lemma mounted_snoc: "mounted search (events @ [e]) = step search (mounted search events) e"
  by (simp add: mounted_def)

lemma short_input_no_pending:
  "pending_ok s \<Longrightarrow> length (trim (inputValue s)) < 2 \<Longrightarrow> no_search_pending s"
  unfolding no_search_pending_iff pending_ok_def by fastforce

lemma change_to_short:
  assumes "length (trim v) < 2" "v \<noteq> inputValue s"
  shows "suggestions (step search s (Change v)) = [] \<and> \<not> showSuggestions (step search s (Change v))
       \<and> searches (step search s (Change v)) = searches s"
  using assms by (simp add: setInputValue_def effect_short)

text \<open>
  The debounce. In \<open>SongAutocomplete\<close> and in \<open>ArtistAutocomplete\<close>, after any sequence of
  events: every search that was issued was called with the input of that moment (and
  limit 8), that input had been unchanged for at least 300 ms, and it had two characters
  or more once trimmed; while the trimmed input has fewer than two characters no debounce
  timeout is pending; and a change of the input to a value with fewer than two characters
  once trimmed empties the suggestion list and hides it, and issues no search.
\<close>

theorem autocomplete_debounce:
  "(\<forall>r \<in> set (searches (SongAutocomplete events)).
      issued_call r = SearchTracks (issued_input r) None 8
    \<and> issued_since r + 300 \<le> issued_at r
    \<and> 2 \<le> length (trim (issued_input r)))
 \<and> (length (trim (inputValue (SongAutocomplete events))) < 2 \<longrightarrow>
      no_search_pending (SongAutocomplete events))
 \<and> (length (trim v) < 2 \<and> v \<noteq> inputValue (SongAutocomplete events) \<longrightarrow>
      suggestions (SongAutocomplete (events @ [Change v])) = []
    \<and> \<not> showSuggestions (SongAutocomplete (events @ [Change v]))
    \<and> searches (SongAutocomplete (events @ [Change v])) = searches (SongAutocomplete events))
 \<and> (\<forall>r \<in> set (searches (ArtistAutocomplete events')).
      issued_call r = SearchArtists (issued_input r) 8
    \<and> issued_since r + 300 \<le> issued_at r
    \<and> 2 \<le> length (trim (issued_input r)))
 \<and> (length (trim (inputValue (ArtistAutocomplete events'))) < 2 \<longrightarrow>
      no_search_pending (ArtistAutocomplete events'))
 \<and> (length (trim v') < 2 \<and> v' \<noteq> inputValue (ArtistAutocomplete events') \<longrightarrow>
      suggestions (ArtistAutocomplete (events' @ [Change v'])) = []
    \<and> \<not> showSuggestions (ArtistAutocomplete (events' @ [Change v']))
    \<and> searches (ArtistAutocomplete (events' @ [Change v'])) = searches (ArtistAutocomplete events'))"
proof -
  have song: "debounce_inv (\<lambda>inputValue. SearchTracks inputValue None 8) (SongAutocomplete events)"
    unfolding SongAutocomplete_def by (rule mounted_inv)
  have artist: "debounce_inv (\<lambda>inputValue. SearchArtists inputValue 8) (ArtistAutocomplete events')"
    unfolding ArtistAutocomplete_def by (rule mounted_inv)
  have s1: "\<forall>r \<in> set (searches (SongAutocomplete events)).
      issued_call r = SearchTracks (issued_input r) None 8
    \<and> issued_since r + 300 \<le> issued_at r \<and> 2 \<le> length (trim (issued_input r))"
    using song by (simp add: debounce_inv_def issued_ok_def)
  have a1: "\<forall>r \<in> set (searches (ArtistAutocomplete events')).
      issued_call r = SearchArtists (issued_input r) 8
    \<and> issued_since r + 300 \<le> issued_at r \<and> 2 \<le> length (trim (issued_input r))"
    using artist by (simp add: debounce_inv_def issued_ok_def)
  have s2: "length (trim (inputValue (SongAutocomplete events))) < 2 \<longrightarrow>
      no_search_pending (SongAutocomplete events)"
    using song by (simp add: debounce_inv_def short_input_no_pending)
  have a2: "length (trim (inputValue (ArtistAutocomplete events'))) < 2 \<longrightarrow>
      no_search_pending (ArtistAutocomplete events')"
    using artist by (simp add: debounce_inv_def short_input_no_pending)
  have s3: "length (trim v) < 2 \<and> v \<noteq> inputValue (SongAutocomplete events) \<longrightarrow>
      suggestions (SongAutocomplete (events @ [Change v])) = []
    \<and> \<not> showSuggestions (SongAutocomplete (events @ [Change v]))
    \<and> searches (SongAutocomplete (events @ [Change v])) = searches (SongAutocomplete events)"
    using change_to_short [of v "SongAutocomplete events" "\<lambda>inputValue. SearchTracks inputValue None 8"]
    by (simp add: SongAutocomplete_def mounted_snoc)
  have a3: "length (trim v') < 2 \<and> v' \<noteq> inputValue (ArtistAutocomplete events') \<longrightarrow>
      suggestions (ArtistAutocomplete (events' @ [Change v'])) = []
    \<and> \<not> showSuggestions (ArtistAutocomplete (events' @ [Change v']))
    \<and> searches (ArtistAutocomplete (events' @ [Change v'])) = searches (ArtistAutocomplete events')"
    using change_to_short [of v' "ArtistAutocomplete events'" "\<lambda>inputValue. SearchArtists inputValue 8"]
    by (simp add: ArtistAutocomplete_def mounted_snoc)
  from s1 s2 s3 a1 a2 a3 show ?thesis by blast
qed

text \<open>The statement on a run that types \<open>ab\<close> and waits 300 ms, and on one that deletes
  a character.\<close>

lemmas run_defs = SongAutocomplete_def ArtistAutocomplete_def mounted_def effect_def setInputValue_def
  cleanup_def clear_debounce_def clearTimeout_def setTimeout_def start_search_def trim_def is_space_def
  no_search_pending_def

theorem autocomplete_debounce_witness:
  "searches (SongAutocomplete [Change ''ab'', Elapse 300, Fire 1]) =
     [\<lparr>issued_at = 300, issued_call = SearchTracks ''ab'' None 8,
       issued_input = ''ab'', issued_since = 0\<rparr>]
 \<and> searches (ArtistAutocomplete [Change ''ab'', Elapse 300, Fire 1]) =
     [\<lparr>issued_at = 300, issued_call = SearchArtists ''ab'' 8,
       issued_input = ''ab'', issued_since = 0\<rparr>]
 \<and> length (trim '' a '') < 2
 \<and> '' a '' \<noteq> inputValue (SongAutocomplete [Change ''ab'', Elapse 300, Fire 1])
 \<and> '' a '' \<noteq> inputValue (ArtistAutocomplete [Change ''ab'', Elapse 300, Fire 1])
 \<and> suggestions (SongAutocomplete ([Change ''ab'', Elapse 300, Fire 1] @ [Change '' a ''])) = []
 \<and> \<not> showSuggestions (ArtistAutocomplete ([Change ''ab'', Elapse 300, Fire 1] @ [Change '' a '']))
 \<and> length (trim (inputValue (SongAutocomplete [Change ''ab'', Change ''a'']))) < 2
 \<and> no_search_pending (SongAutocomplete [Change ''ab'', Change ''a''])
 \<and> length (trim (inputValue (ArtistAutocomplete [Change ''ab'', Change ''a'']))) < 2
 \<and> no_search_pending (ArtistAutocomplete [Change ''ab'', Change ''a''])"
proof -
  have song: "searches (SongAutocomplete [Change ''ab'', Elapse 300, Fire 1]) =
     [\<lparr>issued_at = 300, issued_call = SearchTracks ''ab'' None 8,
       issued_input = ''ab'', issued_since = 0\<rparr>]"
    by (simp add: run_defs)
  have artist: "searches (ArtistAutocomplete [Change ''ab'', Elapse 300, Fire 1]) =
     [\<lparr>issued_at = 300, issued_call = SearchArtists ''ab'' 8,
       issued_input = ''ab'', issued_since = 0\<rparr>]"
    by (simp add: run_defs)
  have short: "length (trim '' a '') < 2" by (simp add: trim_def is_space_def)
  have inputs: "inputValue (SongAutocomplete [Change ''ab'', Elapse 300, Fire 1]) = ''ab''"
    "inputValue (ArtistAutocomplete [Change ''ab'', Elapse 300, Fire 1]) = ''ab''"
    "inputValue (SongAutocomplete [Change ''ab'', Change ''a'']) = ''a''"
    "inputValue (ArtistAutocomplete [Change ''ab'', Change ''a'']) = ''a''"
    by (simp_all add: run_defs)
  have short': "length (trim ''a'') < 2" by (simp add: trim_def is_space_def)
  show ?thesis
    using song artist short short' inputs
      autocomplete_debounce [of "[Change ''ab'', Elapse 300, Fire 1]" "'' a ''"
        "[Change ''ab'', Elapse 300, Fire 1]" "'' a ''"]
      autocomplete_debounce [of "[Change ''ab'', Change ''a'']" "''a''"
        "[Change ''ab'', Change ''a'']" "''a''"]
    by simp
qed

text \<open>
  Claim C5. The debounce holds as stated above, but the suggestion list is not kept empty
  and hidden while the trimmed input has fewer than two characters. The callback of the
  timeout sets the suggestions when its search resolves and does not look at the input
  again: type \<open>ab\<close>, wait 300 ms so that the search starts, delete a character, and let the
  search resolve with one result. The input is then \<open>a\<close>, and the list holds the result and
  is shown, in both components.
\<close>

theorem autocomplete_late_answer:
  "inputValue (SongAutocomplete
     [Change ''ab'', Elapse 300, Fire 1, Change ''a'', Resolved [sample_track]]) = ''a''
 \<and> length (trim ''a'') < 2
 \<and> suggestions (SongAutocomplete
     [Change ''ab'', Elapse 300, Fire 1, Change ''a'', Resolved [sample_track]]) = [sample_track]
 \<and> showSuggestions (SongAutocomplete
     [Change ''ab'', Elapse 300, Fire 1, Change ''a'', Resolved [sample_track]])
 \<and> inputValue (ArtistAutocomplete
     [Change ''ab'', Elapse 300, Fire 1, Change ''a'', Resolved [sample_artist]]) = ''a''
 \<and> suggestions (ArtistAutocomplete
     [Change ''ab'', Elapse 300, Fire 1, Change ''a'', Resolved [sample_artist]]) = [sample_artist]
 \<and> showSuggestions (ArtistAutocomplete
     [Change ''ab'', Elapse 300, Fire 1, Change ''a'', Resolved [sample_artist]])"
  by (simp add: run_defs)

section \<open>The mood collage\<close>

lemma concat_map_Nil: "(\<And>x. x \<in> set xs \<Longrightarrow> f x = []) \<Longrightarrow> concat (map f xs) = []"
  by (induction xs) auto

lemma img_in_swatch: "elements ''img'' (swatch e) = []"
  by (cases e) (simp add: swatch_def)

lemma img_in_visual_param: "elements ''img'' (visual_param f e) = []"
  by (cases e) (simp add: visual_param_def)

lemma class_in_swatch: "with_class swatch_class (swatch e) = [swatch e]"
  by (cases e) (simp add: swatch_def swatch_class_def)

lemma class_in_visual_param: "with_class swatch_class (visual_param f e) = []"
  by (cases e) (simp add: visual_param_def swatch_class_def)

lemma img_in_swatches: "concat (map (elements ''img'') (map swatch es)) = []"
  by (simp add: concat_map_Nil img_in_swatch)

lemma img_in_visual_params: "concat (map (elements ''img'') (map (visual_param f) es)) = []"
  by (simp add: concat_map_Nil img_in_visual_param)

lemma class_in_swatches: "concat (map (with_class swatch_class) (map swatch es)) = map swatch es"
  by (induction es) (simp_all add: class_in_swatch)

lemma class_in_visual_params: "concat (map (with_class swatch_class) (map (visual_param f) es)) = []"
  by (simp add: concat_map_Nil class_in_visual_param)

lemma MoodCollageDisplay_img:
  "elements ''img'' (MoodCollageDisplay toFixed2 isExpanded collage em) =
     [Element ''img''
        [(''src'', ''data:image/png;base64,'' @ image_base64 collage),
         (''alt'', or_else em ''Mood'' @ '' visualization''),
         (''className'', ''w-full h-auto object-cover'')] []]"
  by (simp add: MoodCollageDisplay_def img_in_swatches img_in_visual_params del: map_map)

lemma MoodCollageDisplay_swatches:
  "with_class swatch_class (MoodCollageDisplay toFixed2 isExpanded collage em) =
     map swatch (enumerate 0 (take 5 (dominant_colors collage)))"
proof -
  have c: "swatch_class = ''w-8 h-8 rounded-full border-2 border-white/30''"
    by (simp add: swatch_class_def)
  show ?thesis
    unfolding MoodCollageDisplay_def
    by (simp add: class_in_swatches class_in_visual_params del: map_map) (simp add: c)
qed

lemma swatch_colors:
  "map (attribute ''style.backgroundColor'') (map swatch (enumerate n cs)) = map Some cs"
  by (induction cs arbitrary: n) (simp_all add: swatch_def)

text \<open>
  Claim C7. For every collage, whether expanded or not, \<open>MoodCollageDisplay\<close> renders one
  image, whose source is the PNG data URL \<open>data:image/png;base64,\<close> followed by the
  collage's \<open>image_base64\<close>; its colour swatches are one for each of the first five
  entries of \<open>dominant_colors\<close>, in order and coloured by the entry, so at most five.
\<close>

theorem MoodCollageDisplay_image_and_swatches:
  "elements ''img'' (MoodCollageDisplay toFixed2 isExpanded collage em) =
     [Element ''img''
        [(''src'', ''data:image/png;base64,'' @ image_base64 collage),
         (''alt'', or_else em ''Mood'' @ '' visualization''),
         (''className'', ''w-full h-auto object-cover'')] []]
 \<and> with_class swatch_class (MoodCollageDisplay toFixed2 isExpanded collage em) =
     map swatch (enumerate 0 (take 5 (dominant_colors collage)))
 \<and> map (attribute ''style.backgroundColor'')
       (with_class swatch_class (MoodCollageDisplay toFixed2 isExpanded collage em)) =
     map Some (take 5 (dominant_colors collage))
 \<and> length (with_class swatch_class (MoodCollageDisplay toFixed2 isExpanded collage em)) \<le> 5"
  by (simp add: MoodCollageDisplay_img MoodCollageDisplay_swatches swatch_colors del: map_map)

section \<open>Shuffling\<close>




lemma multiply_nonneg: "0 \<le> multiply d n"
  by (cases d) (simp add: multiply_def Let_def)









end
